theory Spec2Isabelle
  imports Complex_Main "HOL-Library.AList" "HOL-Library.Multiset" "HOL-Library.Sublist"
begin

section \<open>Tables\<close>

text \<open>
  The dashboard script \<^verbatim>\<open>app.py\<close> works on pandas tables. A table has an ordered
  list of column names and an ordered list of rows; a row is the dictionary the
  generator builds (\<^verbatim>\<open>{"timestamp": t, "sensor_id": ..., ...}\<close>), kept as an association
  list. A cell is a point in time, a string, a number or one of the two missing markers of
  pandas (\<^verbatim>\<open>NaT\<close> in a datetime column, \<^verbatim>\<open>NaN\<close> elsewhere).

  A point in time is the number of microseconds since \<^verbatim>\<open>datetime.min\<close>
  (0001-01-01 00:00:00), the resolution of Python's \<^verbatim>\<open>datetime\<close>. A number is the
  rational a finite double denotes; arithmetic on doubles rounds, so it is never
  written with \<open>+\<close> or \<open>/\<close> on \<open>rat\<close> here but taken from the library record below.
  Row labels (the pandas index) are not part of the model.
\<close>

datatype cell = Time int | NaT | Str string | Num rat | NaN

type_synonym row = "(string \<times> cell) list"

record frame =
  columns :: "string list"
  rows :: "row list"

text \<open>
  Exceptions, all of them instances of Python's \<^verbatim>\<open>Exception\<close>; \<open>LibraryError\<close> stands
  for whatever a library routine raises on its input.
\<close>

datatype py_error =
    OverflowError
  | KeyError string
  | AttributeError
  | LibraryError string

definition cell_at :: "row \<Rightarrow> string \<Rightarrow> cell" where
  "cell_at r c = (case map_of r c of None \<Rightarrow> NaN | Some v \<Rightarrow> v)"

definition ts_of :: "row \<Rightarrow> int option" where
  "ts_of r = (case map_of r ''timestamp'' of Some (Time t) \<Rightarrow> Some t | _ \<Rightarrow> None)"

definition column :: "frame \<Rightarrow> string \<Rightarrow> cell list" where
  "column df c = map (\<lambda>r. cell_at r c) (rows df)"

definition timestamps :: "frame \<Rightarrow> int list" where
  "timestamps df = List.map_filter ts_of (rows df)"

text \<open>\<^verbatim>\<open>pd.DataFrame()\<close>: no columns, no rows.\<close>

definition empty_frame :: frame where
  "empty_frame = \<lparr>columns = [], rows = []\<rparr>"

text \<open>
  \<^verbatim>\<open>pd.DataFrame(rows)\<close> on a list of dictionaries: the columns are the keys in order of
  first appearance. A key a row lacks reads as \<^verbatim>\<open>NaN\<close> (see \<open>cell_at\<close>), so the rows
  are kept as they are.
\<close>

definition first_seen :: "string list \<Rightarrow> string list" where
  "first_seen ks = fold (\<lambda>k cs. if k \<in> set cs then cs else cs @ [k]) ks []"

definition DataFrame :: "row list \<Rightarrow> frame" where
  "DataFrame rs = \<lparr>columns = first_seen (concat (map (map fst) rs)), rows = rs\<rparr>"

text \<open>\<^verbatim>\<open>df.empty\<close>: some axis has length 0.\<close>

definition empty :: "frame \<Rightarrow> bool" where
  "empty df = (columns df = [] \<or> rows df = [])"

section \<open>Library and runtime environment\<close>

text \<open>
  What the script calls but does not define is a parameter: double arithmetic, the
  formatting and parsing routines of pandas, and the random source. A call that can raise
  returns \<open>py_error + _\<close>.
\<close>

record pylib =
  f_add :: "rat \<Rightarrow> rat \<Rightarrow> rat"
  f_mul :: "rat \<Rightarrow> rat \<Rightarrow> rat"
  f_round :: "rat \<Rightarrow> int \<Rightarrow> rat"
  strftime :: "string \<Rightarrow> int \<Rightarrow> string"
  astype_str :: "cell \<Rightarrow> string"
  read_csv :: "string \<Rightarrow> py_error + frame"
  to_datetime :: "cell \<Rightarrow> py_error + int option"
  to_csv :: "frame \<Rightarrow> string"
  series_mean :: "cell list \<Rightarrow> py_error + cell"
  series_min :: "cell list \<Rightarrow> py_error + cell"
  series_max :: "cell list \<Rightarrow> py_error + cell"
  format_2f :: "cell \<Rightarrow> py_error + string"
  px_line :: "frame \<Rightarrow> string \<Rightarrow> string \<Rightarrow> string \<Rightarrow> py_error + string"

text \<open>
  The random source, indexed by the iteration of the generator's loop:
  \<^verbatim>\<open>random.randint(1, 4)\<close>, \<^verbatim>\<open>random.choice([...])\<close> and \<^verbatim>\<open>random.uniform(-5, 5)\<close>.
\<close>

record rng =
  randint_raw :: "nat \<Rightarrow> nat"
  choice_raw :: "nat \<Rightarrow> nat"
  uniform :: "nat \<Rightarrow> rat"

definition randint :: "rng \<Rightarrow> nat \<Rightarrow> nat \<Rightarrow> nat \<Rightarrow> nat" where
  "randint g lo hi i = lo + randint_raw g i mod (hi - lo + 1)"

definition choice :: "rng \<Rightarrow> 'a list \<Rightarrow> nat \<Rightarrow> 'a" where
  "choice g xs i = xs ! (choice_raw g i mod length xs)"

fun str_nat :: "nat \<Rightarrow> string" where
  "str_nat n =
     (if n < 10 then [char_of (48 + n)]
      else str_nat (n div 10) @ [char_of (48 + n mod 10)])"

section \<open>Points in time\<close>

text \<open>
  \<^verbatim>\<open>datetime.max\<close> is 9999-12-31 23:59:59.999999, the last microsecond of day 3652059.
  \<^verbatim>\<open>timedelta(seconds=s)\<close> raises \<^verbatim>\<open>OverflowError\<close> beyond 999999999 days, and so does
  a subtraction that leaves the range of \<^verbatim>\<open>datetime\<close>.
\<close>

definition DT_MAX :: int where
  "DT_MAX = 3652059 * 86400 * 1000000 - 1"

definition timedelta_seconds :: "int \<Rightarrow> py_error + int" where
  "timedelta_seconds s =
     (if \<bar>s div 86400\<bar> > 999999999 then Inl OverflowError else Inr (s * 1000000))"

definition datetime_sub :: "int \<Rightarrow> int \<Rightarrow> py_error + int" where
  "datetime_sub t d =
     (if t - d < 0 \<or> DT_MAX < t - d then Inl OverflowError else Inr (t - d))"

section \<open>Row generator\<close>

text \<open>
  \<^verbatim>\<open>generate_live_rows(n, start_time)\<close>. The loop over \<^verbatim>\<open>range(n)\<close> is a recursion over
  the list of indices with the list of rows built so far; \<open>now\<close> is what
  \<^verbatim>\<open>datetime.now()\<close> returns, read only when \<open>start_time\<close> is \<^verbatim>\<open>None\<close>.
\<close>

definition base :: rat where
  "base = 100"

definition generated_row :: "pylib \<Rightarrow> rng \<Rightarrow> nat \<Rightarrow> int \<Rightarrow> row" where
  "generated_row L g i t =
     [(''timestamp'', Time t),
      (''sensor_id'', Str (''sensor_'' @ str_nat (randint g 1 4 i))),
      (''metric_type'', Str (choice g [''temperature'', ''humidity''] i)),
      (''value'', Num (f_round L (f_add L (f_add L base (uniform g i))
                                         (f_mul L (of_nat i) (1 / 10))) 2))]"

fun generate_loop ::
  "pylib \<Rightarrow> rng \<Rightarrow> int \<Rightarrow> int \<Rightarrow> nat list \<Rightarrow> row list \<Rightarrow> py_error + row list" where
  "generate_loop L g n start_time [] rs = Inr rs"
| "generate_loop L g n start_time (i # is) rs =
     (case timedelta_seconds ((n - int i) * 2) of
        Inl e \<Rightarrow> Inl e
      | Inr d \<Rightarrow>
          (case datetime_sub start_time d of
             Inl e \<Rightarrow> Inl e
           | Inr t \<Rightarrow> generate_loop L g n start_time is (rs @ [generated_row L g i t])))"

definition generate_live_rows ::
  "pylib \<Rightarrow> rng \<Rightarrow> int \<Rightarrow> int option \<Rightarrow> int \<Rightarrow> py_error + frame" where
  "generate_live_rows L g n start_time now =
     (let start_time = (case start_time of None \<Rightarrow> now | Some s \<Rightarrow> s)
      in case generate_loop L g n start_time [0..<nat n] [] of
           Inl e \<Rightarrow> Inl e
         | Inr rs \<Rightarrow> Inr (DataFrame rs))"

section \<open>Table operations\<close>

text \<open>
  The pandas operations the script uses, on the values of tables: \<^verbatim>\<open>df[mask]\<close>,
  \<^verbatim>\<open>Series.isin\<close>, \<^verbatim>\<open>pd.concat([a, b], ignore_index=True)\<close>, \<^verbatim>\<open>tail\<close>,
  \<^verbatim>\<open>sort_values("timestamp")\<close> and the assignment of a column. \<^verbatim>\<open>reset_index(drop=True)\<close>
  and \<^verbatim>\<open>copy\<close> change row labels and object identity only, so they are the identity on
  values (object identity is the subject of the last section).
\<close>

definition select :: "frame \<Rightarrow> (row \<Rightarrow> bool) \<Rightarrow> frame" where
  "select df keep = df\<lparr>rows := filter keep (rows df)\<rparr>"

definition isin :: "string \<Rightarrow> string list \<Rightarrow> row \<Rightarrow> bool" where
  "isin c vals r = (case cell_at r c of Str s \<Rightarrow> s \<in> set vals | _ \<Rightarrow> False)"

definition pd_concat :: "frame \<Rightarrow> frame \<Rightarrow> frame" where
  "pd_concat a b = \<lparr>columns = first_seen (columns a @ columns b), rows = rows a @ rows b\<rparr>"

definition tail :: "nat \<Rightarrow> frame \<Rightarrow> frame" where
  "tail k df = df\<lparr>rows := drop (length (rows df) - k) (rows df)\<rparr>"

definition reset_index :: "frame \<Rightarrow> frame" where
  "reset_index df = df"

definition copy :: "frame \<Rightarrow> frame" where
  "copy df = df"

definition set_column :: "frame \<Rightarrow> string \<Rightarrow> (row \<Rightarrow> cell) \<Rightarrow> frame" where
  "set_column df c f =
     \<lparr>columns = (if c \<in> set (columns df) then columns df else columns df @ [c]),
      rows = map (\<lambda>r. AList.update c (f r) r) (rows df)\<rparr>"

text \<open>
  \<^verbatim>\<open>sort_values("timestamp", ascending=...)\<close>: the rows that have a timestamp are sorted,
  the rows without one follow them in their original order (\<^verbatim>\<open>na_position="last"\<close>).
  Rows with equal timestamps keep their relative order here; pandas leaves it open.
\<close>

definition the_ts :: "row \<Rightarrow> int" where
  "the_ts r = (case ts_of r of None \<Rightarrow> 0 | Some t \<Rightarrow> t)"

definition sort_values_timestamp :: "bool \<Rightarrow> frame \<Rightarrow> frame" where
  "sort_values_timestamp ascending df =
     df\<lparr>rows :=
          sort_key (\<lambda>r. if ascending then the_ts r else - the_ts r)
            (filter (\<lambda>r. ts_of r \<noteq> None) (rows df))
          @ filter (\<lambda>r. ts_of r = None) (rows df)\<rparr>"

section \<open>CSV ingestor\<close>

text \<open>
  \<^verbatim>\<open>parse_uploaded_csv\<close>: \<open>parse_body\<close> is the \<^verbatim>\<open>try\<close> block, with
  \<^verbatim>\<open>pd.to_datetime(..., errors="coerce")\<close> applied cell by cell (no timestamp is
  \<^verbatim>\<open>NaT\<close>); the handler \<^verbatim>\<open>except Exception: return None\<close> turns every exception of
  the block into the result \<open>None\<close>.
\<close>

fun to_datetime_rows :: "pylib \<Rightarrow> row list \<Rightarrow> py_error + row list" where
  "to_datetime_rows L [] = Inr []"
| "to_datetime_rows L (r # rs) =
     (case to_datetime L (cell_at r ''timestamp'') of
        Inl e \<Rightarrow> Inl e
      | Inr t \<Rightarrow>
          (case to_datetime_rows L rs of
             Inl e \<Rightarrow> Inl e
           | Inr rs' \<Rightarrow>
               Inr (AList.update ''timestamp'' (case t of None \<Rightarrow> NaT | Some u \<Rightarrow> Time u) r # rs')))"

definition parse_body :: "pylib \<Rightarrow> string \<Rightarrow> py_error + frame" where
  "parse_body L uploaded_file =
     (case read_csv L uploaded_file of
        Inl e \<Rightarrow> Inl e
      | Inr df \<Rightarrow>
          if ''timestamp'' \<in> set (columns df)
          then (case to_datetime_rows L (rows df) of
                  Inl e \<Rightarrow> Inl e
                | Inr rs \<Rightarrow> Inr (df\<lparr>rows := rs\<rparr>))
          else Inr df)"

definition parse_uploaded_csv :: "pylib \<Rightarrow> string \<Rightarrow> py_error + frame option" where
  "parse_uploaded_csv L uploaded_file =
     (case parse_body L uploaded_file of
        Inl e \<Rightarrow> Inr None
      | Inr df \<Rightarrow> Inr (Some df))"

section \<open>What a pass shows\<close>

datatype ui =
    Title string
  | Subheader string
  | Info string
  | Write string
  | Metric string string
  | Markdown string
  | PlotlyChart string
  | Dataframe frame
  | DownloadButton string string string
  | SidebarError string
  | SidebarInfo string

text \<open>The branch \<^verbatim>\<open>mode == "Upload CSV"\<close>: the table of the pass and the sidebar message.\<close>

definition upload_branch :: "pylib \<Rightarrow> string option \<Rightarrow> py_error + frame \<times> ui list" where
  "upload_branch L uploaded =
     (case uploaded of
        None \<Rightarrow> Inr (empty_frame, [SidebarInfo ''No file uploaded.''])
      | Some f \<Rightarrow>
          (case parse_uploaded_csv L f of
             Inl e \<Rightarrow> Inl e
           | Inr parsed \<Rightarrow>
               (case parsed of
                  None \<Rightarrow> Inr (empty_frame, [SidebarError ''Failed to parse CSV.''])
                | Some df \<Rightarrow> Inr (df, []))))"

section \<open>Rolling buffer\<close>

text \<open>
  The branch \<^verbatim>\<open>mode == "Live (simulated)"\<close> on values: \<open>live_init\<close> is the first
  assignment of \<^verbatim>\<open>st.session_state.live_buffer\<close>, \<open>live_tick\<close> the three statements under
  \<^verbatim>\<open>if auto_refresh\<close>, \<open>live_ticks\<close> one tick per pass, each with its own random source
  and clock reading.
\<close>

definition live_init :: "pylib \<Rightarrow> rng \<Rightarrow> int \<Rightarrow> py_error + frame" where
  "live_init L g now = generate_live_rows L g 60 None now"

definition live_tick :: "pylib \<Rightarrow> rng \<Rightarrow> int \<Rightarrow> frame \<Rightarrow> py_error + frame" where
  "live_tick L g now live_buffer =
     (case generate_live_rows L g 5 (Some now) now of
        Inl e \<Rightarrow> Inl e
      | Inr new_rows \<Rightarrow> Inr (reset_index (tail 500 (pd_concat live_buffer new_rows))))"

fun live_ticks :: "pylib \<Rightarrow> (rng \<times> int) list \<Rightarrow> frame \<Rightarrow> py_error + frame" where
  "live_ticks L [] live_buffer = Inr live_buffer"
| "live_ticks L ((g, now) # ps) live_buffer =
     (case live_tick L g now live_buffer of
        Inl e \<Rightarrow> Inl e
      | Inr b \<Rightarrow> live_ticks L ps b)"

section \<open>Filter stage\<close>

definition filter_stage :: "frame \<Rightarrow> string list \<Rightarrow> string list \<Rightarrow> frame" where
  "filter_stage data_df metric_filter sensor_filter =
     (if \<not> empty data_df then
        (let data_df =
               (if ''metric_type'' \<in> set (columns data_df) \<and> metric_filter \<noteq> []
                then select data_df (isin ''metric_type'' metric_filter)
                else data_df)
         in if sensor_filter \<noteq> [] then
              (if ''sensor_id'' \<in> set (columns data_df)
               then select data_df (isin ''sensor_id'' sensor_filter)
               else data_df)
            else data_df)
      else data_df)"

section \<open>View derivations\<close>

definition format_df_for_plot :: "frame \<Rightarrow> frame" where
  "format_df_for_plot df =
     (let df2 = copy df
      in if ''timestamp'' \<in> set (columns df2) then sort_values_timestamp True df2 else df2)"

definition fillna :: "cell \<Rightarrow> cell \<Rightarrow> cell" where
  "fillna v c = (case c of NaN \<Rightarrow> v | NaT \<Rightarrow> v | _ \<Rightarrow> c)"

text \<open>
  The trend chart. \<^verbatim>\<open>px.line\<close> is the library's; without a timestamp column it is given
  the table after \<^verbatim>\<open>reset_index()\<close> and the axis name \<^verbatim>\<open>index\<close>.
\<close>

definition trend :: "pylib \<Rightarrow> frame \<Rightarrow> py_error + ui list" where
  "trend L data_df =
     (if empty data_df then Inr [Subheader ''Trend'', Info ''No data available.'']
      else
        (let df_plot = format_df_for_plot data_df;
             df_plot =
               (if ''metric_type'' \<in> set (columns df_plot)
                then set_column df_plot ''metric_type''
                       (\<lambda>r. fillna (Str ''unknown'') (cell_at r ''metric_type''))
                else set_column df_plot ''metric_type'' (\<lambda>r. Str ''unknown''));
             fig =
               (if ''timestamp'' \<in> set (columns df_plot)
                then px_line L df_plot ''timestamp'' ''value'' ''metric_type''
                else px_line L (reset_index df_plot) ''index'' ''value'' ''metric_type'')
         in case fig of
              Inl e \<Rightarrow> Inl e
            | Inr f \<Rightarrow> Inr [Subheader ''Trend'', PlotlyChart f]))"

text \<open>
  Quick stats. \<^verbatim>\<open>data_df["value"]\<close> raises \<^verbatim>\<open>KeyError\<close> without the column; mean,
  minimum, maximum and the format \<^verbatim>\<open>.2f\<close> are the library's.
\<close>

definition quick_stats :: "pylib \<Rightarrow> frame \<Rightarrow> py_error + ui list" where
  "quick_stats L data_df =
     (if empty data_df then Inr [Write ''-'']
      else if ''value'' \<notin> set (columns data_df) then Inl (KeyError ''value'')
      else
        (case series_mean L (column data_df ''value'') of Inl e \<Rightarrow> Inl e | Inr avg \<Rightarrow>
        (case series_min L (column data_df ''value'') of Inl e \<Rightarrow> Inl e | Inr mn \<Rightarrow>
        (case series_max L (column data_df ''value'') of Inl e \<Rightarrow> Inl e | Inr mx \<Rightarrow>
        (case format_2f L avg of Inl e \<Rightarrow> Inl e | Inr a \<Rightarrow>
        (case format_2f L mn of Inl e \<Rightarrow> Inl e | Inr b \<Rightarrow>
        (case format_2f L mx of Inl e \<Rightarrow> Inl e | Inr c \<Rightarrow>
           Inr [Metric ''Average value'' a, Metric ''Min value'' b,
                Metric ''Max value'' c])))))))"

text \<open>
  The information column. \<^verbatim>\<open>data_df["timestamp"].max()\<close> skips missing cells and is
  \<^verbatim>\<open>NaT\<close> when there is no timestamp at all.
\<close>

definition timestamp_max :: "cell list \<Rightarrow> cell" where
  "timestamp_max cs =
     (case List.map_filter (\<lambda>c. case c of Time t \<Rightarrow> Some t | _ \<Rightarrow> None) cs of
        [] \<Rightarrow> NaT
      | t # ts \<Rightarrow> Time (fold max ts t))"

definition info_panel :: "pylib \<Rightarrow> string \<Rightarrow> frame \<Rightarrow> ui list" where
  "info_panel L mode data_df =
     [Subheader ''Controls & Info'',
      Markdown (''- Mode: **'' @ mode @ ''**''),
      Markdown (''- Rows: **'' @ str_nat (length (rows data_df)) @ ''**'')]
     @ (if ''timestamp'' \<in> set (columns data_df) then
          (case timestamp_max (column data_df ''timestamp'') of
             Time t \<Rightarrow>
               [Markdown (''- Last timestamp: **'' @ strftime L ''%Y-%m-%d %H:%M:%S'' t @ ''**'')]
           | _ \<Rightarrow> [Markdown ''- Last timestamp: N/A''])
        else [])
     @ [Markdown ''---'']"

text \<open>
  The raw table. \<^verbatim>\<open>display_df["timestamp"].dt.strftime(fmt)\<close> needs a datetime column
  (\<^verbatim>\<open>AttributeError\<close> otherwise) and gives a missing cell for \<^verbatim>\<open>NaT\<close>.
\<close>

definition is_datetime :: "cell \<Rightarrow> bool" where
  "is_datetime c = (case c of Time t \<Rightarrow> True | NaT \<Rightarrow> True | _ \<Rightarrow> False)"

definition dt_strftime :: "pylib \<Rightarrow> string \<Rightarrow> row \<Rightarrow> cell" where
  "dt_strftime L fmt r =
     (case cell_at r ''timestamp'' of Time t \<Rightarrow> Str (strftime L fmt t) | _ \<Rightarrow> NaN)"

definition assign_strftime :: "pylib \<Rightarrow> string \<Rightarrow> frame \<Rightarrow> py_error + frame" where
  "assign_strftime L fmt df =
     (if list_all is_datetime (column df ''timestamp'')
      then Inr (set_column df ''timestamp'' (dt_strftime L fmt))
      else Inl AttributeError)"

definition display_table :: "pylib \<Rightarrow> bool \<Rightarrow> frame \<Rightarrow> py_error + ui list" where
  "display_table L show_table data_df =
     (if show_table \<and> \<not> empty data_df then
        (let display_df =
               (if ''timestamp'' \<in> set (columns data_df)
                then sort_values_timestamp False data_df
                else data_df)
         in case (if ''timestamp'' \<in> set (columns display_df)
                  then assign_strftime L ''%Y-%m-%d %H:%M:%S'' display_df
                  else Inr display_df) of
              Inl e \<Rightarrow> Inl e
            | Inr display_df \<Rightarrow>
                Inr [Subheader ''Raw data (latest first)'', Dataframe (reset_index display_df)])
      else Inr [])"

text \<open>The download: \<^verbatim>\<open>astype(str)\<close> on the timestamp column, then \<^verbatim>\<open>to_csv\<close>.\<close>

definition to_download :: "pylib \<Rightarrow> frame \<Rightarrow> frame" where
  "to_download L data_df =
     (let df = copy data_df
      in if ''timestamp'' \<in> set (columns df)
         then set_column df ''timestamp'' (\<lambda>r. Str (astype_str L (cell_at r ''timestamp'')))
         else df)"

definition export_csv :: "pylib \<Rightarrow> bool \<Rightarrow> frame \<Rightarrow> py_error + ui list" where
  "export_csv L download_btn data_df =
     (if download_btn \<and> \<not> empty data_df then
        (let csv_buf = to_csv L (to_download L data_df)
         in Inr [DownloadButton csv_buf ''export.csv'' ''text/csv''])
      else Inr [])"

text \<open>Everything below the filter, in the order of the script; the first exception ends it.\<close>

definition render ::
  "pylib \<Rightarrow> string \<Rightarrow> bool \<Rightarrow> bool \<Rightarrow> frame \<Rightarrow> py_error + ui list" where
  "render L mode show_table download_btn data_df =
     (case trend L data_df of Inl e \<Rightarrow> Inl e | Inr t \<Rightarrow>
     (case quick_stats L data_df of Inl e \<Rightarrow> Inl e | Inr q \<Rightarrow>
     (case display_table L show_table data_df of Inl e \<Rightarrow> Inl e | Inr d \<Rightarrow>
     (case export_csv L download_btn data_df of Inl e \<Rightarrow> Inl e | Inr x \<Rightarrow>
        Inr (t @ q @ info_panel L mode data_df @ d @ x)))))"

section \<open>The script on objects\<close>

text \<open>
  Whether a statement of the script can change the rolling buffer depends on which table
  objects it shares. Here every table is an object of a store (the list of all tables ever
  created, an object's reference being its position), and the session state holds the
  reference of the buffer. A pandas call that returns a table (\<^verbatim>\<open>copy\<close>, \<^verbatim>\<open>df[mask]\<close>,
  \<^verbatim>\<open>pd.concat\<close>, \<^verbatim>\<open>tail\<close>, \<^verbatim>\<open>reset_index\<close>, \<^verbatim>\<open>sort_values\<close>, \<^verbatim>\<open>assign\<close>,
  \<^verbatim>\<open>pd.DataFrame\<close>) creates an object; the two statements of the form
  \<^verbatim>\<open>df["column"] = ...\<close> change the object \<^verbatim>\<open>df\<close> refers to. The contents are computed by
  the operations of the sections above. An exception ends the pass and leaves the store
  and the session as they are at that point.
\<close>

record world =
  heap :: "frame list"
  live_buffer :: "nat option"
  last_live_time :: "int option"

definition alloc :: "world \<Rightarrow> frame \<Rightarrow> world \<times> nat" where
  "alloc w df = (w\<lparr>heap := heap w @ [df]\<rparr>, length (heap w))"

definition deref :: "world \<Rightarrow> nat \<Rightarrow> frame" where
  "deref w a = heap w ! a"

definition assign_in_place :: "world \<Rightarrow> nat \<Rightarrow> frame \<Rightarrow> world" where
  "assign_in_place w a df = w\<lparr>heap := (heap w)[a := df]\<rparr>"

text \<open>
  The clock readings and random sources of one pass in live mode: \<open>now_init\<close> inside
  \<^verbatim>\<open>generate_live_rows(60)\<close>, \<open>now_last\<close> for \<^verbatim>\<open>last_live_time\<close>, \<open>now_tick\<close> for the
  new rows.
\<close>

record live_env =
  rng_init :: rng
  now_init :: int
  now_last :: int
  rng_tick :: rng
  now_tick :: int

text \<open>The statements under \<^verbatim>\<open>if "live_buffer" not in st.session_state\<close>.\<close>

definition live_init_obj :: "pylib \<Rightarrow> live_env \<Rightarrow> world \<Rightarrow> world \<times> (py_error + unit)" where
  "live_init_obj L E w =
     (if live_buffer w = None then
        (case generate_live_rows L (rng_init E) 60 None (now_init E) of
           Inl e \<Rightarrow> (w, Inl e)
         | Inr df \<Rightarrow>
             (let wa = alloc w df
              in ((fst wa)\<lparr>live_buffer := Some (snd wa), last_live_time := Some (now_last E)\<rparr>,
                  Inr ())))
      else (w, Inr ()))"

text \<open>
  The statements under \<^verbatim>\<open>if auto_refresh\<close>. Reading \<^verbatim>\<open>st.session_state.live_buffer\<close>
  without the key raises.
\<close>

definition live_tick_obj :: "pylib \<Rightarrow> live_env \<Rightarrow> world \<Rightarrow> world \<times> (py_error + unit)" where
  "live_tick_obj L E w =
     (case generate_live_rows L (rng_tick E) 5 (Some (now_tick E)) (now_tick E) of
        Inl e \<Rightarrow> (w, Inl e)
      | Inr df \<Rightarrow>
          (let wn = alloc w df; new_rows = snd wn
           in case live_buffer (fst wn) of
                None \<Rightarrow> (fst wn, Inl AttributeError)
              | Some b \<Rightarrow>
                  (let wc = alloc (fst wn) (pd_concat (deref (fst wn) b) (deref (fst wn) new_rows));
                       w1 = (fst wc)\<lparr>live_buffer := Some (snd wc)\<rparr>;
                       wt = alloc w1 (tail 500 (deref w1 (snd wc)));
                       wr = alloc (fst wt) (reset_index (deref (fst wt) (snd wt)))
                   in ((fst wr)\<lparr>live_buffer := Some (snd wr)\<rparr>, Inr ()))))"

text \<open>The branch \<^verbatim>\<open>mode == "Live (simulated)"\<close>; its result is the reference \<open>data_df\<close>.\<close>

definition live_branch_obj ::
  "pylib \<Rightarrow> live_env \<Rightarrow> bool \<Rightarrow> world \<Rightarrow> world \<times> (py_error + nat)" where
  "live_branch_obj L E auto_refresh w =
     (case live_init_obj L E w of
        (w1, Inl e) \<Rightarrow> (w1, Inl e)
      | (w1, Inr u) \<Rightarrow>
          (case (if auto_refresh then live_tick_obj L E w1 else (w1, Inr ())) of
             (w2, Inl e) \<Rightarrow> (w2, Inl e)
           | (w2, Inr u) \<Rightarrow>
               (case live_buffer w2 of
                  None \<Rightarrow> (w2, Inl AttributeError)
                | Some b \<Rightarrow>
                    (let wd = alloc w2 (copy (deref w2 b)) in (fst wd, Inr (snd wd))))))"

definition filter_obj :: "world \<Rightarrow> nat \<Rightarrow> string list \<Rightarrow> string list \<Rightarrow> world \<times> nat" where
  "filter_obj w data_df metric_filter sensor_filter =
     (if \<not> empty (deref w data_df) then
        (let wd = (if ''metric_type'' \<in> set (columns (deref w data_df)) \<and> metric_filter \<noteq> []
                   then alloc w (select (deref w data_df) (isin ''metric_type'' metric_filter))
                   else (w, data_df))
         in if sensor_filter \<noteq> [] then
              (if ''sensor_id'' \<in> set (columns (deref (fst wd) (snd wd)))
               then alloc (fst wd)
                      (select (deref (fst wd) (snd wd)) (isin ''sensor_id'' sensor_filter))
               else wd)
            else wd)
      else (w, data_df))"

definition format_df_for_plot_obj :: "world \<Rightarrow> nat \<Rightarrow> world \<times> nat" where
  "format_df_for_plot_obj w df =
     (let w2 = alloc w (copy (deref w df))
      in if ''timestamp'' \<in> set (columns (deref (fst w2) (snd w2)))
         then alloc (fst w2) (sort_values_timestamp True (deref (fst w2) (snd w2)))
         else w2)"

definition trend_obj :: "pylib \<Rightarrow> world \<Rightarrow> nat \<Rightarrow> world \<times> (py_error + ui list)" where
  "trend_obj L w data_df =
     (if empty (deref w data_df) then (w, Inr [Subheader ''Trend'', Info ''No data available.''])
      else
        (let wp = format_df_for_plot_obj w data_df; df_plot = snd wp;
             w1 = (if ''metric_type'' \<in> set (columns (deref (fst wp) df_plot))
                   then assign_in_place (fst wp) df_plot
                          (set_column (deref (fst wp) df_plot) ''metric_type''
                             (\<lambda>r. fillna (Str ''unknown'') (cell_at r ''metric_type'')))
                   else assign_in_place (fst wp) df_plot
                          (set_column (deref (fst wp) df_plot) ''metric_type''
                             (\<lambda>r. Str ''unknown'')));
             wf = (if ''timestamp'' \<in> set (columns (deref w1 df_plot))
                   then (w1, px_line L (deref w1 df_plot) ''timestamp'' ''value'' ''metric_type'')
                   else (let wi = alloc w1 (reset_index (deref w1 df_plot))
                         in (fst wi,
                             px_line L (deref (fst wi) (snd wi)) ''index'' ''value''
                               ''metric_type'')))
         in case snd wf of
              Inl e \<Rightarrow> (fst wf, Inl e)
            | Inr f \<Rightarrow> (fst wf, Inr [Subheader ''Trend'', PlotlyChart f])))"

definition display_table_obj ::
  "pylib \<Rightarrow> bool \<Rightarrow> world \<Rightarrow> nat \<Rightarrow> world \<times> (py_error + ui list)" where
  "display_table_obj L show_table w data_df =
     (if show_table \<and> \<not> empty (deref w data_df) then
        (let wd = (if ''timestamp'' \<in> set (columns (deref w data_df))
                   then alloc w (sort_values_timestamp False (deref w data_df))
                   else (w, data_df));
             display_df = snd wd
         in if ''timestamp'' \<in> set (columns (deref (fst wd) display_df)) then
              (case assign_strftime L ''%Y-%m-%d %H:%M:%S'' (deref (fst wd) display_df) of
                 Inl e \<Rightarrow> (fst wd, Inl e)
               | Inr df \<Rightarrow>
                   (let wa = alloc (fst wd) df;
                        ws = alloc (fst wa) (reset_index (deref (fst wa) (snd wa)))
                    in (fst ws, Inr [Subheader ''Raw data (latest first)'',
                                     Dataframe (deref (fst ws) (snd ws))])))
            else
              (let ws = alloc (fst wd) (reset_index (deref (fst wd) display_df))
               in (fst ws, Inr [Subheader ''Raw data (latest first)'',
                                Dataframe (deref (fst ws) (snd ws))])))
      else (w, Inr []))"

definition export_csv_obj ::
  "pylib \<Rightarrow> bool \<Rightarrow> world \<Rightarrow> nat \<Rightarrow> world \<times> (py_error + ui list)" where
  "export_csv_obj L download_btn w data_df =
     (if download_btn \<and> \<not> empty (deref w data_df) then
        (let wt = alloc w (copy (deref w data_df)); to_dl = snd wt;
             w1 = (if ''timestamp'' \<in> set (columns (deref (fst wt) to_dl))
                   then assign_in_place (fst wt) to_dl
                          (set_column (deref (fst wt) to_dl) ''timestamp''
                             (\<lambda>r. Str (astype_str L (cell_at r ''timestamp''))))
                   else fst wt);
             csv_buf = to_csv L (deref w1 to_dl)
         in (w1, Inr [DownloadButton csv_buf ''export.csv'' ''text/csv'']))
      else (w, Inr []))"

definition render_obj ::
  "pylib \<Rightarrow> string \<Rightarrow> bool \<Rightarrow> bool \<Rightarrow> world \<Rightarrow> nat \<Rightarrow> world \<times> (py_error + ui list)" where
  "render_obj L mode show_table download_btn w data_df =
     (case trend_obj L w data_df of
        (w1, Inl e) \<Rightarrow> (w1, Inl e)
      | (w1, Inr t) \<Rightarrow>
     (case quick_stats L (deref w1 data_df) of
        Inl e \<Rightarrow> (w1, Inl e)
      | Inr q \<Rightarrow>
     (case display_table_obj L show_table w1 data_df of
        (w2, Inl e) \<Rightarrow> (w2, Inl e)
      | (w2, Inr d) \<Rightarrow>
     (case export_csv_obj L download_btn w2 data_df of
        (w3, Inl e) \<Rightarrow> (w3, Inl e)
      | (w3, Inr x) \<Rightarrow>
          (w3, Inr (t @ q @ info_panel L mode (deref w1 data_df) @ d @ x))))))"

text \<open>One pass of the script in live mode.\<close>

definition live_pass ::
  "pylib \<Rightarrow> live_env \<Rightarrow> bool \<Rightarrow> bool \<Rightarrow> bool \<Rightarrow> string list \<Rightarrow> string list \<Rightarrow> world
     \<Rightarrow> world \<times> (py_error + ui list)" where
  "live_pass L E auto_refresh show_table download_btn metric_filter sensor_filter w =
     (case live_branch_obj L E auto_refresh w of
        (w1, Inl e) \<Rightarrow> (w1, Inl e)
      | (w1, Inr data_df) \<Rightarrow>
          (let wd = filter_obj w1 data_df metric_filter sensor_filter
           in render_obj L ''Live (simulated)'' show_table download_btn (fst wd) (snd wd)))"

text \<open>
  \<open>extends w w'\<close>: every table of the store \<open>w\<close> is in \<open>w'\<close> at the same reference with the
  same contents, and the session state is the same.
\<close>

definition extends :: "world \<Rightarrow> world \<Rightarrow> bool" where
  "extends w w' =
     (prefix (heap w) (heap w') \<and> live_buffer w' = live_buffer w
      \<and> last_live_time w' = last_live_time w)"

text \<open>
  The order of the raw table, from the words of its caption (latest first): of two rows in
  display order the earlier one has the later timestamp or the same, and no row without a
  timestamp stands before a row with one.
\<close>

definition latest_first :: "row \<Rightarrow> row \<Rightarrow> bool" where
  "latest_first a b =
     (case ts_of b of
        None \<Rightarrow> True
      | Some t \<Rightarrow> (case ts_of a of None \<Rightarrow> False | Some s \<Rightarrow> t \<le> s))"

section \<open>A concrete environment\<close>

text \<open>
  One library and one random source, to run the definitions on concrete inputs. Exact
  arithmetic stands in for the rounding arithmetic of doubles, a comma splitter for the
  CSV reader, and \<open>iso_seconds\<close> (the calendar of Python's \<^verbatim>\<open>datetime\<close>) for
  \<^verbatim>\<open>strftime("%Y-%m-%d %H:%M:%S")\<close>. No statement about the script depends on them.
\<close>

definition zfill :: "nat \<Rightarrow> string \<Rightarrow> string" where
  "zfill w s = replicate (w - length s) CHR ''0'' @ s"

fun month_day :: "int list \<Rightarrow> int \<Rightarrow> int \<Rightarrow> int \<times> int" where
  "month_day [] m d = (m, d + 1)"
| "month_day (l # ls) m d = (if d < l then (m, d + 1) else month_day ls (m + 1) (d - l))"

definition civil :: "int \<Rightarrow> int \<times> int \<times> int" where
  "civil days =
     (let n400 = days div 146097; n = days mod 146097;
          n100 = n div 36524; n = n mod 36524;
          n4 = n div 1461; n = n mod 1461;
          n1 = n div 365; n = n mod 365;
          year = n400 * 400 + n100 * 100 + n4 * 4 + n1 + 1
      in if n1 = 4 \<or> n100 = 4 then (year - 1, 12, 31)
         else
           (let leap = (n1 = 3 \<and> (n4 \<noteq> 24 \<or> n100 = 3));
                md = month_day [31, if leap then 29 else 28, 31, 30, 31, 30, 31, 31, 30, 31, 30, 31] 1 n
            in (year, fst md, snd md)))"

definition digits2 :: "int \<Rightarrow> string" where
  "digits2 k = zfill 2 (str_nat (nat k))"

definition iso_seconds :: "int \<Rightarrow> string" where
  "iso_seconds t =
     (let s = t div 1000000; ymd = civil (s div 86400); r = s mod 86400
      in zfill 4 (str_nat (nat (fst ymd))) @ ''-'' @ digits2 (fst (snd ymd)) @ ''-''
         @ digits2 (snd (snd ymd)) @ '' '' @ digits2 (r div 3600) @ '':''
         @ digits2 (r mod 3600 div 60) @ '':'' @ digits2 (r mod 60))"

definition round_half_even :: "rat \<Rightarrow> int" where
  "round_half_even x =
     (let f = \<lfloor>x\<rfloor>; d = x - of_int f
      in if d < 1 / 2 then f else if 1 / 2 < d then f + 1 else if even f then f else f + 1)"

definition sample_2f :: "rat \<Rightarrow> string" where
  "sample_2f q =
     (let n = round_half_even (\<bar>q\<bar> * 100)
      in (if q < 0 then ''-'' else []) @ str_nat (nat (n div 100)) @ ''.''
         @ zfill 2 (str_nat (nat (n mod 100))))"

definition sample_str :: "cell \<Rightarrow> string" where
  "sample_str c =
     (case c of Time t \<Rightarrow> iso_seconds t | NaT \<Rightarrow> ''NaT'' | Str s \<Rightarrow> s
      | Num q \<Rightarrow> sample_2f q | NaN \<Rightarrow> ''nan'')"

fun split_on :: "char \<Rightarrow> string \<Rightarrow> string \<Rightarrow> string list" where
  "split_on sep [] field = [rev field]"
| "split_on sep (c # cs) field =
     (if c = sep then rev field # split_on sep cs [] else split_on sep cs (c # field))"

fun join_with :: "string \<Rightarrow> string list \<Rightarrow> string" where
  "join_with sep [] = []"
| "join_with sep [x] = x"
| "join_with sep (x # y # ys) = x @ sep @ join_with sep (y # ys)"

definition sample_read_csv :: "string \<Rightarrow> py_error + frame" where
  "sample_read_csv bytes =
     (case filter (\<lambda>l. l \<noteq> []) (split_on CHR 0x0A bytes []) of
        [] \<Rightarrow> Inl (LibraryError ''EmptyDataError'')
      | header # lines \<Rightarrow>
          (let cols = split_on CHR '','' header []
           in Inr \<lparr>columns = cols,
                   rows = map (\<lambda>l. zip cols (map (\<lambda>f. if f = [] then NaN else Str f)
                                                 (split_on CHR '','' l []))) lines\<rparr>))"

definition sample_to_csv :: "frame \<Rightarrow> string" where
  "sample_to_csv df =
     concat (map (\<lambda>l. l @ [CHR 0x0A])
       (join_with '','' (columns df)
        # map (\<lambda>r. join_with '','' (map (\<lambda>c. case cell_at r c of NaN \<Rightarrow> [] | NaT \<Rightarrow> []
                                                    | v \<Rightarrow> sample_str v) (columns df)))
            (rows df)))"

definition sample_numbers :: "cell list \<Rightarrow> rat list" where
  "sample_numbers cs = List.map_filter (\<lambda>c. case c of Num q \<Rightarrow> Some q | _ \<Rightarrow> None) cs"

definition sample_lib :: pylib where
  "sample_lib =
     \<lparr>f_add = (\<lambda>a b. a + b),
      f_mul = (\<lambda>a b. a * b),
      f_round = (\<lambda>x nd. of_int (round_half_even (x * 10 ^ nat nd)) / 10 ^ nat nd),
      strftime = (\<lambda>fmt t. iso_seconds t),
      astype_str = sample_str,
      read_csv = sample_read_csv,
      to_datetime = (\<lambda>c. Inr (case c of Time t \<Rightarrow> Some t | _ \<Rightarrow> None)),
      to_csv = sample_to_csv,
      series_mean = (\<lambda>cs. case sample_numbers cs of [] \<Rightarrow> Inr NaN
                          | qs \<Rightarrow> Inr (Num (sum_list qs / of_nat (length qs)))),
      series_min = (\<lambda>cs. case sample_numbers cs of [] \<Rightarrow> Inr NaN
                         | q # qs \<Rightarrow> Inr (Num (fold min qs q))),
      series_max = (\<lambda>cs. case sample_numbers cs of [] \<Rightarrow> Inr NaN
                         | q # qs \<Rightarrow> Inr (Num (fold max qs q))),
      format_2f = (\<lambda>c. case c of Num q \<Rightarrow> Inr (sample_2f q) | NaN \<Rightarrow> Inr ''nan''
                        | _ \<Rightarrow> Inl (LibraryError ''ValueError'')),
      px_line = (\<lambda>df x y color. if y \<in> set (columns df) then Inr ''figure''
                                else Inl (LibraryError ''ValueError''))\<rparr>"

definition sample_rng :: rng where
  "sample_rng = \<lparr>randint_raw = (\<lambda>i. i), choice_raw = (\<lambda>i. i), uniform = (\<lambda>i. 1 / 2)\<rparr>"

text \<open>A session that already holds a buffer of two rows, and the readings of one pass.\<close>

definition sample_world :: world where
  "sample_world =
     \<lparr>heap = [\<lparr>columns = [''timestamp'', ''sensor_id'', ''metric_type'', ''value''],
               rows = [[(''timestamp'', Time 63899999996000000), (''sensor_id'', Str ''sensor_1''),
                        (''metric_type'', Str ''temperature''), (''value'', Num 100)],
                       [(''timestamp'', Time 63899999998000000), (''sensor_id'', Str ''sensor_2''),
                        (''metric_type'', Str ''humidity''), (''value'', Num 101)]]\<rparr>],
      live_buffer = Some 0, last_live_time = Some 63899999999000000\<rparr>"

definition sample_env :: live_env where
  "sample_env =
     \<lparr>rng_init = sample_rng, now_init = 63900000000000000, now_last = 63900000000000001,
      rng_tick = sample_rng, now_tick = 63900000000000002\<rparr>"

section \<open>The row generator's timestamps\<close>

lemma generate_loop_Inr:
  assumes "\<forall>i\<in>set is. int i < n" "n * 2000000 \<le> start" "start \<le> DT_MAX"
  shows "generate_loop L g n start is rs =
           Inr (rs @ map (\<lambda>i. generated_row L g i (start - (n - int i) * 2000000)) is)"
  using assms
proof (induction "is" arbitrary: rs)
  case Nil
  then show ?case by simp
next
  case (Cons i "is")
  have i: "int i < n" using Cons.prems by simp
  have td: "timedelta_seconds ((n - int i) * 2) = Inr ((n - int i) * 2000000)"
    using i Cons.prems(2,3) by (simp add: timedelta_seconds_def DT_MAX_def)
  have ds: "datetime_sub start ((n - int i) * 2000000) = Inr (start - (n - int i) * 2000000)"
    using i Cons.prems(2,3) by (simp add: datetime_sub_def DT_MAX_def)
  show ?case using Cons td ds by simp
qed

lemma ts_of_generated_row [simp]: "ts_of (generated_row L g i t) = Some t"
  by (simp add: ts_of_def generated_row_def)

lemma generate_live_rows_Inr:
  assumes "0 \<le> n" "start = (case start_time of None \<Rightarrow> now | Some s \<Rightarrow> s)"
    "n * 2000000 \<le> start" "start \<le> DT_MAX"
  shows "generate_live_rows L g n start_time now =
           Inr (DataFrame (map (\<lambda>i. generated_row L g i (start - (n - int i) * 2000000))
                             [0..<nat n]))"
proof -
  have "\<forall>i\<in>set [0..<nat n]. int i < n" using assms(1) by auto
  from generate_loop_Inr [OF this assms(3,4)] show ?thesis
    using assms(2) by (simp add: generate_live_rows_def)
qed

lemma timestamps_DataFrame_generated:
  "timestamps (DataFrame (map (\<lambda>i. generated_row L g i (f i)) is)) = map f is"
  by (simp add: timestamps_def DataFrame_def List.map_filter_def comp_def)

text \<open>
  Claim C1, as amended. For \<open>n \<ge> 0\<close> and a start time from which \<open>2 * n\<close> seconds can be
  subtracted within the range of \<^verbatim>\<open>datetime\<close>, \<open>generate_live_rows\<close> returns a table of
  exactly \<open>n\<close> rows; row \<open>i\<close> has the timestamp \<open>start - (n - i) * 2 s\<close>, so the timestamps
  are strictly increasing and exactly two seconds (2000000 microseconds) apart, and the
  last one is \<open>start - 2 s\<close>, two seconds before the start time and not the start time
  itself.
\<close>

theorem generate_live_rows_timestamps:
  assumes "0 \<le> n" "start = (case start_time of None \<Rightarrow> now | Some s \<Rightarrow> s)"
    "n * 2000000 \<le> start" "start \<le> DT_MAX"
  shows "\<exists>df. generate_live_rows L g n start_time now = Inr df
           \<and> length (rows df) = nat n
           \<and> timestamps df = map (\<lambda>i. start - (n - int i) * 2000000) [0..<nat n]
           \<and> sorted_wrt (<) (timestamps df)
           \<and> (\<forall>i. Suc i < nat n \<longrightarrow> timestamps df ! Suc i - timestamps df ! i = 2000000)
           \<and> (0 < n \<longrightarrow> last (timestamps df) = start - 2000000)"
proof -
  let ?f = "\<lambda>i. start - (n - int i) * 2000000"
  let ?df = "DataFrame (map (\<lambda>i. generated_row L g i (?f i)) [0..<nat n])"
  have run: "generate_live_rows L g n start_time now = Inr ?df"
    by (rule generate_live_rows_Inr [OF assms])
  have len: "length (rows ?df) = nat n" by (simp add: DataFrame_def)
  have ts: "timestamps ?df = map ?f [0..<nat n]"
    by (rule timestamps_DataFrame_generated)
  have srt: "sorted_wrt (<) (map ?f [0..<nat n])"
    by (simp add: sorted_wrt_map sorted_wrt_iff_nth_less)
  have gap: "\<forall>i. Suc i < nat n \<longrightarrow> map ?f [0..<nat n] ! Suc i - map ?f [0..<nat n] ! i = 2000000"
    by simp
  have lst: "0 < n \<longrightarrow> last (map ?f [0..<nat n]) = start - 2000000"
  proof
    assume "0 < n"
    then have ne: "[0..<nat n] \<noteq> []" by simp
    have "last [0..<nat n] = nat n - 1" using \<open>0 < n\<close> by simp
    then show "last (map ?f [0..<nat n]) = start - 2000000"
      using ne \<open>0 < n\<close> by (simp add: last_map)
  qed
  show ?thesis using run len ts srt gap lst by simp
qed

text \<open>
  One row asked for at 2025-11-29 08:00:00 carries the timestamp 07:59:58: the last row's
  timestamp is not the start time.
\<close>

theorem generate_live_rows_last_counterexample:
  "generate_live_rows sample_lib sample_rng 1 (Some 63900000000000000) 0 =
     Inr \<lparr>columns = [''timestamp'', ''sensor_id'', ''metric_type'', ''value''],
          rows = [[(''timestamp'', Time 63899999998000000), (''sensor_id'', Str ''sensor_1''),
                   (''metric_type'', Str ''temperature''), (''value'', Num (201 / 2))]]\<rparr>
   \<and> Time 63899999998000000 \<noteq> Time 63900000000000000"
  by code_simp

theorem generate_live_rows_timestamps_witness:
  "(0::int) \<le> 3 \<and> 3 * 2000000 \<le> (63900000000000000::int) \<and> 63900000000000000 \<le> DT_MAX
   \<and> (\<exists>df. generate_live_rows sample_lib sample_rng 3 (Some 63900000000000000) 0 = Inr df
          \<and> length (rows df) = 3
          \<and> timestamps df = [63899999994000000, 63899999996000000, 63899999998000000]
          \<and> last (timestamps df) = 63899999998000000)"
proof -
  have r: "[0..<3] = [0, 1, 2::nat]" by (simp add: upt_rec numeral_eq_Suc)
  show ?thesis
    using generate_live_rows_timestamps [where n = 3 and start = 63900000000000000
        and start_time = "Some 63900000000000000" and now = 0 and L = sample_lib
        and g = sample_rng]
    by (auto simp add: DT_MAX_def r)
qed

section \<open>The rolling buffer's size\<close>

lemma generate_live_rows_length:
  assumes "0 \<le> n" "start = (case start_time of None \<Rightarrow> now | Some s \<Rightarrow> s)"
    "n * 2000000 \<le> start" "start \<le> DT_MAX"
  shows "\<exists>df. generate_live_rows L g n start_time now = Inr df \<and> length (rows df) = nat n"
  using generate_live_rows_Inr [OF assms, where L = L and g = g] by (simp add: DataFrame_def)

lemma live_init_length:
  assumes "120000000 \<le> now" "now \<le> DT_MAX"
  shows "\<exists>b. live_init L g now = Inr b \<and> length (rows b) = 60"
  using generate_live_rows_length [where n = 60 and start = now and start_time = None and now = now and L = L and g = g] assms
  by (simp add: live_init_def)

lemma live_tick_rows:
  assumes "10000000 \<le> now" "now \<le> DT_MAX"
  shows "\<exists>new b. generate_live_rows L g 5 (Some now) now = Inr new \<and> length (rows new) = 5
           \<and> live_tick L g now buf = Inr b
           \<and> rows b = drop (length (rows buf) + 5 - 500) (rows buf @ rows new)"
proof -
  obtain new where new: "generate_live_rows L g 5 (Some now) now = Inr new"
      "length (rows new) = 5"
    using generate_live_rows_length [where n = 5 and start = now and start_time = "Some now" and now = now and L = L and g = g] assms by auto
  then show ?thesis
    by (simp add: live_tick_def reset_index_def tail_def pd_concat_def)
qed

lemma live_tick_length:
  assumes "10000000 \<le> now" "now \<le> DT_MAX"
  shows "\<exists>b. live_tick L g now buf = Inr b \<and> length (rows b) = min (length (rows buf) + 5) 500"
  using live_tick_rows [OF assms, where L = L and g = g and buf = buf] by auto

lemma live_ticks_length:
  assumes "\<forall>(g, now)\<in>set ps. 10000000 \<le> now \<and> now \<le> DT_MAX"
    "length (rows buf) \<le> 500"
  shows "\<exists>b. live_ticks L ps buf = Inr b
           \<and> length (rows b) = min (length (rows buf) + 5 * length ps) 500"
  using assms
proof (induction ps arbitrary: buf)
  case Nil
  then show ?case by simp
next
  case (Cons p ps)
  obtain g now where p: "p = (g, now)" by (cases p)
  from Cons.prems p have now: "10000000 \<le> now" "now \<le> DT_MAX" by auto
  from live_tick_length [OF now, where L = L and g = g and buf = buf] obtain b where
    b: "live_tick L g now buf = Inr b" "length (rows b) = min (length (rows buf) + 5) 500"
    by blast
  from Cons.prems have "\<forall>(g, now)\<in>set ps. 10000000 \<le> now \<and> now \<le> DT_MAX" by simp
  moreover have "length (rows b) \<le> 500" using b(2) by simp
  ultimately obtain b' where
    b': "live_ticks L ps b = Inr b'" "length (rows b') = min (length (rows b) + 5 * length ps) 500"
    using Cons.IH [where buf = b] by blast
  show ?case using p b b' by auto
qed

text \<open>
  Claim C2. With clock readings from which the generator can count back (two minutes after
  \<^verbatim>\<open>datetime.min\<close> for the first fill, ten seconds for a tick), the first fill has 60
  rows, and after the ticks \<open>ps\<close> (one random source and one clock reading each) the buffer
  has \<open>min (60 + 5 * length ps) 500\<close> rows, never more than 500. A tick on a buffer of
  exactly 500 rows leaves 500 rows: the old rows without their first five, followed by the
  five new rows.
\<close>

theorem rolling_buffer_size:
  assumes "120000000 \<le> now0" "now0 \<le> DT_MAX"
    "\<forall>(g, now)\<in>set ps. 10000000 \<le> now \<and> now \<le> DT_MAX"
  shows "(\<exists>b0 b. live_init L g0 now0 = Inr b0 \<and> length (rows b0) = 60
            \<and> live_ticks L ps b0 = Inr b
            \<and> length (rows b) = min (60 + 5 * length ps) 500
            \<and> length (rows b) \<le> 500)
         \<and> (length (rows buf) = 500 \<and> 10000000 \<le> now' \<and> now' \<le> DT_MAX \<longrightarrow>
              (\<exists>new b'. generate_live_rows L g' 5 (Some now') now' = Inr new
                 \<and> length (rows new) = 5
                 \<and> live_tick L g' now' buf = Inr b'
                 \<and> length (rows b') = 500
                 \<and> rows b' = drop 5 (rows buf) @ rows new))"
proof
  from live_init_length [OF assms(1,2), where L = L and g = g0] obtain b0 where
    b0: "live_init L g0 now0 = Inr b0" "length (rows b0) = 60" by blast
  from live_ticks_length [OF assms(3), where L = L and buf = b0] b0(2) obtain b where
    b: "live_ticks L ps b0 = Inr b" "length (rows b) = min (length (rows b0) + 5 * length ps) 500"
    by auto
  show "\<exists>b0 b. live_init L g0 now0 = Inr b0 \<and> length (rows b0) = 60
            \<and> live_ticks L ps b0 = Inr b
            \<and> length (rows b) = min (60 + 5 * length ps) 500
            \<and> length (rows b) \<le> 500"
    using b0 b by auto
next
  show "length (rows buf) = 500 \<and> 10000000 \<le> now' \<and> now' \<le> DT_MAX \<longrightarrow>
              (\<exists>new b'. generate_live_rows L g' 5 (Some now') now' = Inr new
                 \<and> length (rows new) = 5
                 \<and> live_tick L g' now' buf = Inr b'
                 \<and> length (rows b') = 500
                 \<and> rows b' = drop 5 (rows buf) @ rows new)"
  proof
    assume h: "length (rows buf) = 500 \<and> 10000000 \<le> now' \<and> now' \<le> DT_MAX"
    then have now: "10000000 \<le> now'" "now' \<le> DT_MAX" by simp_all
    from live_tick_rows [OF now, where L = L and g = g' and buf = buf] obtain new b where
      nb: "generate_live_rows L g' 5 (Some now') now' = Inr new" "length (rows new) = 5"
        "live_tick L g' now' buf = Inr b"
        "rows b = drop (length (rows buf) + 5 - 500) (rows buf @ rows new)"
      by blast
    have "rows b = drop 5 (rows buf) @ rows new" using nb(4) h by simp
    then show "\<exists>new b'. generate_live_rows L g' 5 (Some now') now' = Inr new
                 \<and> length (rows new) = 5
                 \<and> live_tick L g' now' buf = Inr b'
                 \<and> length (rows b') = 500
                 \<and> rows b' = drop 5 (rows buf) @ rows new"
      using nb h by auto
  qed
qed

theorem rolling_buffer_size_witness:
  "(120000000::int) \<le> 63900000000000000 \<and> 63900000000000000 \<le> DT_MAX
   \<and> length (rows \<lparr>columns = [''timestamp''], rows = replicate 500 [(''timestamp'', NaT)]\<rparr>) = 500
   \<and> (\<exists>b0 b. live_init sample_lib sample_rng 63900000000000000 = Inr b0
         \<and> length (rows b0) = 60
         \<and> live_ticks sample_lib [(sample_rng, 63900005000000000),
               (sample_rng, 63900010000000000), (sample_rng, 63900015000000000)] b0 = Inr b
         \<and> length (rows b) = 75)
   \<and> (\<exists>new b'. generate_live_rows sample_lib sample_rng 5 (Some 63900020000000000)
                   63900020000000000 = Inr new
         \<and> live_tick sample_lib sample_rng 63900020000000000
              \<lparr>columns = [''timestamp''], rows = replicate 500 [(''timestamp'', NaT)]\<rparr> = Inr b'
         \<and> length (rows b') = 500
         \<and> rows b' = replicate 495 [(''timestamp'', NaT)] @ rows new)"
  using rolling_buffer_size [where ?now0.0 = 63900000000000000 and L = sample_lib
      and ?g0.0 = sample_rng
      and ps = "[(sample_rng, 63900005000000000), (sample_rng, 63900010000000000),
                 (sample_rng, 63900015000000000)]"
      and buf = "\<lparr>columns = [''timestamp''], rows = replicate 500 [(''timestamp'', NaT)]\<rparr>"
      and now' = 63900020000000000 and g' = sample_rng]
  by (simp add: DT_MAX_def del: live_ticks.simps) blast

section \<open>The filter stage\<close>

lemma filter_stage_eq:
  "filter_stage df mf sf =
     df\<lparr>rows := filter (\<lambda>r. (mf = [] \<or> ''metric_type'' \<notin> set (columns df)
                                \<or> isin ''metric_type'' mf r)
                             \<and> (sf = [] \<or> ''sensor_id'' \<notin> set (columns df)
                                \<or> isin ''sensor_id'' sf r)) (rows df)\<rparr>"
  by (cases "rows df = []") (auto simp add: filter_stage_def select_def empty_def Let_def)

lemma isin_iff: "isin c vals r \<longleftrightarrow> (\<exists>s. cell_at r c = Str s \<and> s \<in> set vals)"
  by (simp add: isin_def split: cell.splits)

text \<open>
  Claim C3, as amended. The filter keeps the columns, and a row stays iff (the metric set is
  empty, or the table has no \<^verbatim>\<open>metric_type\<close> column, or the row's metric type is a string
  of the metric set) and (the sensor set is empty, or the table has no \<^verbatim>\<open>sensor_id\<close>
  column, or the row's sensor id is a string of the sensor set). A filter on a column the
  table lacks is not applied at all; a missing cell in a column the table has is a string
  of no set, so such a row stays only when that set is empty.
\<close>

theorem filter_stage_retains:
  "columns (filter_stage df mf sf) = columns df
   \<and> rows (filter_stage df mf sf) =
       filter (\<lambda>r. (mf = [] \<or> ''metric_type'' \<notin> set (columns df)
                      \<or> (\<exists>s. cell_at r ''metric_type'' = Str s \<and> s \<in> set mf))
                   \<and> (sf = [] \<or> ''sensor_id'' \<notin> set (columns df)
                      \<or> (\<exists>s. cell_at r ''sensor_id'' = Str s \<and> s \<in> set sf))) (rows df)"
  by (simp add: filter_stage_eq isin_iff)

theorem filter_stage_retains_witness:
  "rows (filter_stage
      \<lparr>columns = [''sensor_id'', ''metric_type'', ''value''],
       rows = [[(''sensor_id'', Str ''sensor_1''), (''metric_type'', Str ''temperature''),
                (''value'', Num 1)],
               [(''sensor_id'', Str ''sensor_2''), (''metric_type'', Str ''humidity''),
                (''value'', Num 2)],
               [(''sensor_id'', Str ''sensor_1''), (''metric_type'', NaN),
                (''value'', Num 3)]]\<rparr>
      [''temperature''] []) =
     [[(''sensor_id'', Str ''sensor_1''), (''metric_type'', Str ''temperature''),
       (''value'', Num 1)]]"
  using filter_stage_retains [where mf = "[''temperature'']" and sf = "[]"
      and df = "\<lparr>columns = [''sensor_id'', ''metric_type'', ''value''],
       rows = [[(''sensor_id'', Str ''sensor_1''), (''metric_type'', Str ''temperature''),
                (''value'', Num 1)],
               [(''sensor_id'', Str ''sensor_2''), (''metric_type'', Str ''humidity''),
                (''value'', Num 2)],
               [(''sensor_id'', Str ''sensor_1''), (''metric_type'', NaN),
                (''value'', Num 3)]]\<rparr>"]
  by (simp add: cell_at_def)

text \<open>
  An uploaded table with the columns \<^verbatim>\<open>timestamp\<close> and \<^verbatim>\<open>value\<close> only, under the
  default metric selection and one selected sensor: both sets are non-empty, the row is a
  member of neither, and it stays.
\<close>

theorem filter_stage_absent_column_counterexample:
  "rows (filter_stage
      \<lparr>columns = [''timestamp'', ''value''],
       rows = [[(''timestamp'', Time 63900000000000000), (''value'', Num 1)]]\<rparr>
      [''temperature'', ''humidity''] [''sensor_1'']) =
     [[(''timestamp'', Time 63900000000000000), (''value'', Num 1)]]
   \<and> [''temperature'', ''humidity''] \<noteq> ([] :: string list)
   \<and> \<not> isin ''metric_type'' [''temperature'', ''humidity'']
          [(''timestamp'', Time 63900000000000000), (''value'', Num 1)]
   \<and> [''sensor_1''] \<noteq> ([] :: string list)
   \<and> \<not> isin ''sensor_id'' [''sensor_1'']
          [(''timestamp'', Time 63900000000000000), (''value'', Num 1)]"
  by (simp add: filter_stage_def empty_def select_def isin_def cell_at_def)

text \<open>
  Claim C9. Filtering a filtered table again with the same two sets changes nothing.
\<close>

theorem filter_stage_idempotent:
  "filter_stage (filter_stage df mf sf) mf sf = filter_stage df mf sf"
  by (simp add: filter_stage_eq)

theorem filter_stage_idempotent_witness:
  "filter_stage (filter_stage
      \<lparr>columns = [''sensor_id'', ''metric_type''],
       rows = [[(''sensor_id'', Str ''sensor_1''), (''metric_type'', Str ''temperature'')],
               [(''sensor_id'', Str ''sensor_2''), (''metric_type'', Str ''humidity'')]]\<rparr>
      [''temperature''] [''sensor_1'']) [''temperature''] [''sensor_1''] =
   \<lparr>columns = [''sensor_id'', ''metric_type''],
    rows = [[(''sensor_id'', Str ''sensor_1''), (''metric_type'', Str ''temperature'')]]\<rparr>"
  using filter_stage_idempotent [where mf = "[''temperature'']" and sf = "[''sensor_1'']"
      and df = "\<lparr>columns = [''sensor_id'', ''metric_type''],
       rows = [[(''sensor_id'', Str ''sensor_1''), (''metric_type'', Str ''temperature'')],
               [(''sensor_id'', Str ''sensor_2''), (''metric_type'', Str ''humidity'')]]\<rparr>"]
  by (simp add: filter_stage_def empty_def select_def isin_def cell_at_def)

section \<open>Parse failures and empty tables\<close>

text \<open>
  Claim C6. On every input \<open>parse_uploaded_csv\<close> returns: a table, or \<open>None\<close> exactly when
  the \<^verbatim>\<open>try\<close> block raised. It raises nothing itself. On \<open>None\<close> the upload branch leaves
  the empty table of \<^verbatim>\<open>pd.DataFrame()\<close> as the table of the pass, which the filter
  leaves empty, and shows the sidebar message \<^verbatim>\<open>Failed to parse CSV.\<close>; a parsed table is
  passed on with no message.
\<close>

theorem parse_uploaded_csv_never_raises:
  "(\<exists>r. parse_uploaded_csv L f = Inr r)
   \<and> (parse_uploaded_csv L f = Inr None \<longleftrightarrow> (\<exists>e. parse_body L f = Inl e))
   \<and> ((\<exists>e. parse_body L f = Inl e) \<longrightarrow>
         upload_branch L (Some f) = Inr (empty_frame, [SidebarError ''Failed to parse CSV.'']))
   \<and> (\<forall>df. parse_body L f = Inr df \<longrightarrow> upload_branch L (Some f) = Inr (df, []))
   \<and> empty empty_frame
   \<and> filter_stage empty_frame metric_filter sensor_filter = empty_frame"
  by (auto simp add: parse_uploaded_csv_def upload_branch_def empty_def empty_frame_def
      filter_stage_def split: sum.splits)

theorem parse_uploaded_csv_never_raises_witness:
  "parse_body sample_lib [] = Inl (LibraryError ''EmptyDataError'')
   \<and> parse_uploaded_csv sample_lib [] = Inr None
   \<and> upload_branch sample_lib (Some []) =
       Inr (empty_frame, [SidebarError ''Failed to parse CSV.''])"
proof -
  have b: "parse_body sample_lib [] = Inl (LibraryError ''EmptyDataError'')"
    by (simp add: parse_body_def sample_lib_def sample_read_csv_def)
  show ?thesis
    using b parse_uploaded_csv_never_raises [where L = sample_lib and f = "[]"]
    by (simp add: parse_uploaded_csv_def)
qed

text \<open>
  Claim C7. On an empty table (no rows, or no columns) no derivation raises and no
  statistic is computed: the trend shows \<^verbatim>\<open>No data available.\<close>, the statistics panel
  shows the placeholder \<^verbatim>\<open>-\<close> in place of the three metrics, the raw table and the
  download are left out whatever their switches, and the whole rendering returns.
\<close>

theorem empty_dataset_views:
  assumes "empty df"
  shows "trend L df = Inr [Subheader ''Trend'', Info ''No data available.'']
   \<and> quick_stats L df = Inr [Write ''-'']
   \<and> display_table L show_table df = Inr []
   \<and> export_csv L download_btn df = Inr []
   \<and> render L mode show_table download_btn df =
       Inr ([Subheader ''Trend'', Info ''No data available.'', Write ''-'']
            @ info_panel L mode df)"
  using assms
  by (simp add: trend_def quick_stats_def display_table_def export_csv_def render_def)

theorem empty_dataset_views_witness:
  "empty empty_frame
   \<and> trend sample_lib empty_frame = Inr [Subheader ''Trend'', Info ''No data available.'']
   \<and> quick_stats sample_lib empty_frame = Inr [Write ''-'']
   \<and> display_table sample_lib True empty_frame = Inr []
   \<and> export_csv sample_lib True empty_frame = Inr []
   \<and> render sample_lib ''Upload CSV'' True True empty_frame =
       Inr [Subheader ''Trend'', Info ''No data available.'', Write ''-'',
            Subheader ''Controls & Info'', Markdown ''- Mode: **Upload CSV**'',
            Markdown ''- Rows: **0**'', Markdown ''---'']"
proof -
  have e: "empty empty_frame" by (simp add: empty_def empty_frame_def)
  have i: "info_panel sample_lib ''Upload CSV'' empty_frame =
      [Subheader ''Controls & Info'', Markdown ''- Mode: **Upload CSV**'',
       Markdown ''- Rows: **0**'', Markdown ''---'']"
    by code_simp
  show ?thesis
    using e i empty_dataset_views [OF e, where L = sample_lib and show_table = True
        and download_btn = True and mode = "''Upload CSV''"]
    by simp
qed

text \<open>
  For contrast, the statistics of a table with rows and no \<^verbatim>\<open>value\<close> column do raise.
\<close>

lemma quick_stats_without_value_column:
  "quick_stats L \<lparr>columns = [''timestamp''], rows = [[(''timestamp'', NaT)]]\<rparr> =
     Inl (KeyError ''value'')"
  by (simp add: quick_stats_def empty_def)

section \<open>The raw table\<close>

lemma latest_first_present:
  assumes "ts_of a \<noteq> None" "ts_of b \<noteq> None" "- the_ts a \<le> - the_ts b"
  shows "latest_first a b"
  using assms by (auto simp add: latest_first_def the_ts_def)

lemma latest_first_missing: "ts_of b = None \<Longrightarrow> latest_first a b"
  by (simp add: latest_first_def)

lemma sorted_present:
  assumes "\<forall>r\<in>set ys. ts_of r \<noteq> None"
  shows "sorted_wrt latest_first (sort_key (\<lambda>r. - the_ts r) ys)"
proof -
  let ?zs = "sort_key (\<lambda>r. - the_ts r) ys"
  have s: "sorted_wrt (\<lambda>a b. - the_ts a \<le> - the_ts b) ?zs"
    using sorted_sort_key [of "\<lambda>r. - the_ts r" ys] unfolding sorted_map .
  have p: "\<And>a b. a \<in> set ?zs \<Longrightarrow> b \<in> set ?zs \<Longrightarrow> - the_ts a \<le> - the_ts b
             \<Longrightarrow> latest_first a b"
    using assms by (intro latest_first_present) auto
  show ?thesis by (rule sorted_wrt_mono_rel [OF p s])
qed

lemma sorted_missing:
  assumes "\<forall>r\<in>set ys. ts_of r = None"
  shows "sorted_wrt latest_first ys"
  using assms by (induction ys) (auto simp add: latest_first_missing)

lemma sort_values_timestamp_mset:
  "mset (rows (sort_values_timestamp asc df)) = mset (rows df)"
proof -
  have "mset (filter (\<lambda>r. ts_of r \<noteq> None) xs) + mset (filter (\<lambda>r. ts_of r = None) xs)
          = mset xs" for xs
    by (induction xs) simp_all
  then show ?thesis by (simp add: sort_values_timestamp_def)
qed

lemma sort_values_timestamp_latest_first:
  "sorted_wrt latest_first (rows (sort_values_timestamp False df))"
proof -
  let ?present = "sort_key (\<lambda>r. - the_ts r) (filter (\<lambda>r. ts_of r \<noteq> None) (rows df))"
  let ?missing = "filter (\<lambda>r. ts_of r = None) (rows df)"
  have sp: "sorted_wrt latest_first ?present" by (simp add: sorted_present)
  have sm: "sorted_wrt latest_first ?missing" by (simp add: sorted_missing)
  have cross: "\<forall>a\<in>set ?present. \<forall>b\<in>set ?missing. latest_first a b"
    by (simp add: latest_first_missing)
  have "rows (sort_values_timestamp False df) = ?present @ ?missing"
    by (simp add: sort_values_timestamp_def)
  then show ?thesis using sp sm cross by (simp only: sorted_wrt_append)
qed

lemma cell_at_update:
  "cell_at (AList.update k v r) c = (if c = k then v else cell_at r c)"
  by (simp add: cell_at_def update_conv')

text \<open>
  Claim C4, as amended. For a non-empty table with the raw table switched on: without a
  timestamp column the table is shown as it is, in its original order (and so has no
  timestamp cell at all); with a datetime timestamp column the rows shown are the table's
  rows rearranged latest first, the rows without a timestamp last, and in every row the
  timestamp cell is the string \<^verbatim>\<open>strftime("%Y-%m-%d %H:%M:%S")\<close> of the timestamp, or a
  missing cell when the timestamp is absent, every other cell unchanged. No cell is the
  literal \<^verbatim>\<open>N/A\<close>.
\<close>

theorem display_table_latest_first:
  assumes "\<not> empty df"
  shows "(''timestamp'' \<notin> set (columns df) \<longrightarrow>
            display_table L True df = Inr [Subheader ''Raw data (latest first)'', Dataframe df])
         \<and> (''timestamp'' \<in> set (columns df) \<and> list_all is_datetime (column df ''timestamp'') \<longrightarrow>
              (\<exists>rs. mset rs = mset (rows df) \<and> sorted_wrt latest_first rs
                 \<and> display_table L True df =
                     Inr [Subheader ''Raw data (latest first)'',
                          Dataframe \<lparr>columns = columns df,
                            rows = map (\<lambda>r. AList.update ''timestamp''
                                     (case cell_at r ''timestamp'' of
                                        Time t \<Rightarrow> Str (strftime L ''%Y-%m-%d %H:%M:%S'' t)
                                      | _ \<Rightarrow> NaN) r) rs\<rparr>]))
         \<and> cell_at (AList.update ''timestamp'' v r) c
             = (if c = ''timestamp'' then v else cell_at r c)"
proof (intro conjI impI)
  assume "''timestamp'' \<notin> set (columns df)"
  then show "display_table L True df = Inr [Subheader ''Raw data (latest first)'', Dataframe df]"
    using assms by (simp add: display_table_def reset_index_def)
next
  assume h: "''timestamp'' \<in> set (columns df) \<and> list_all is_datetime (column df ''timestamp'')"
  let ?rs = "rows (sort_values_timestamp False df)"
  have cols: "columns (sort_values_timestamp False df) = columns df"
    by (simp add: sort_values_timestamp_def)
  have "set ?rs = set (rows df)"
    using sort_values_timestamp_mset [of False df] by (metis set_mset_mset)
  then have dt: "list_all is_datetime (column (sort_values_timestamp False df) ''timestamp'')"
    using h by (simp add: column_def list_all_iff)
  have "display_table L True df =
          Inr [Subheader ''Raw data (latest first)'',
               Dataframe \<lparr>columns = columns df,
                 rows = map (\<lambda>r. AList.update ''timestamp''
                          (case cell_at r ''timestamp'' of
                             Time t \<Rightarrow> Str (strftime L ''%Y-%m-%d %H:%M:%S'' t)
                           | _ \<Rightarrow> NaN) r) ?rs\<rparr>]"
    using assms h dt cols
    by (simp add: display_table_def assign_strftime_def set_column_def reset_index_def
        dt_strftime_def)
  then show "\<exists>rs. mset rs = mset (rows df) \<and> sorted_wrt latest_first rs
                 \<and> display_table L True df =
                     Inr [Subheader ''Raw data (latest first)'',
                          Dataframe \<lparr>columns = columns df,
                            rows = map (\<lambda>r. AList.update ''timestamp''
                                     (case cell_at r ''timestamp'' of
                                        Time t \<Rightarrow> Str (strftime L ''%Y-%m-%d %H:%M:%S'' t)
                                      | _ \<Rightarrow> NaN) r) rs\<rparr>]"
    using sort_values_timestamp_mset [of False df] sort_values_timestamp_latest_first [of df]
    by blast
next
  show "cell_at (AList.update ''timestamp'' v r) c
             = (if c = ''timestamp'' then v else cell_at r c)"
    by (rule cell_at_update)
qed

text \<open>
  A row without a timestamp is shown with a missing cell, and a table without a timestamp
  column is shown without one: neither renders \<^verbatim>\<open>N/A\<close>.
\<close>

theorem display_table_not_available_counterexample:
  "display_table sample_lib True
     \<lparr>columns = [''timestamp'', ''value''],
      rows = [[(''timestamp'', NaT), (''value'', Num 2)]]\<rparr> =
     Inr [Subheader ''Raw data (latest first)'',
          Dataframe \<lparr>columns = [''timestamp'', ''value''],
                     rows = [[(''timestamp'', NaN), (''value'', Num 2)]]\<rparr>]
   \<and> NaN \<noteq> Str ''N/A''
   \<and> display_table sample_lib True
     \<lparr>columns = [''value''], rows = [[(''value'', Num 2)]]\<rparr> =
     Inr [Subheader ''Raw data (latest first)'',
          Dataframe \<lparr>columns = [''value''], rows = [[(''value'', Num 2)]]\<rparr>]
   \<and> cell_at [(''value'', Num 2)] ''timestamp'' \<noteq> Str ''N/A''"
  by code_simp

theorem display_table_latest_first_witness:
  "\<not> empty \<lparr>columns = [''timestamp'', ''value''],
       rows = [[(''timestamp'', Time 63899999996000000), (''value'', Num 1)],
               [(''timestamp'', NaT), (''value'', Num 2)],
               [(''timestamp'', Time 63899999998000000), (''value'', Num 3)]]\<rparr>
   \<and> list_all is_datetime (column \<lparr>columns = [''timestamp'', ''value''],
       rows = [[(''timestamp'', Time 63899999996000000), (''value'', Num 1)],
               [(''timestamp'', NaT), (''value'', Num 2)],
               [(''timestamp'', Time 63899999998000000), (''value'', Num 3)]]\<rparr> ''timestamp'')
   \<and> display_table sample_lib True
       \<lparr>columns = [''timestamp'', ''value''],
        rows = [[(''timestamp'', Time 63899999996000000), (''value'', Num 1)],
                [(''timestamp'', NaT), (''value'', Num 2)],
                [(''timestamp'', Time 63899999998000000), (''value'', Num 3)]]\<rparr> =
       Inr [Subheader ''Raw data (latest first)'',
            Dataframe \<lparr>columns = [''timestamp'', ''value''],
              rows = [[(''timestamp'', Str ''2025-11-29 07:59:58''), (''value'', Num 3)],
                      [(''timestamp'', Str ''2025-11-29 07:59:56''), (''value'', Num 1)],
                      [(''timestamp'', NaN), (''value'', Num 2)]]\<rparr>]"
proof -
  let ?df = "\<lparr>columns = [''timestamp'', ''value''],
       rows = [[(''timestamp'', Time 63899999996000000), (''value'', Num 1)],
               [(''timestamp'', NaT), (''value'', Num 2)],
               [(''timestamp'', Time 63899999998000000), (''value'', Num 3)]]\<rparr>"
  have e: "\<not> empty ?df" by (simp add: empty_def)
  have d: "list_all is_datetime (column ?df ''timestamp'')"
    by (simp add: column_def cell_at_def is_datetime_def)
  have t: "display_table sample_lib True ?df =
       Inr [Subheader ''Raw data (latest first)'',
            Dataframe \<lparr>columns = [''timestamp'', ''value''],
              rows = [[(''timestamp'', Str ''2025-11-29 07:59:58''), (''value'', Num 3)],
                      [(''timestamp'', Str ''2025-11-29 07:59:56''), (''value'', Num 1)],
                      [(''timestamp'', NaN), (''value'', Num 2)]]\<rparr>]"
    by code_simp
  show ?thesis
    using e d t display_table_latest_first [OF e, where L = sample_lib]
    by simp
qed

section \<open>What a pass does to the rolling buffer\<close>

text \<open>
  The filter and every view derivation only extend the store: the tables they change in
  place are tables they created themselves.
\<close>

lemma extends_refl [simp]: "extends w w"
  by (simp add: extends_def)

lemma extends_trans: "extends w w1 \<Longrightarrow> extends w1 w2 \<Longrightarrow> extends w w2"
  by (auto simp add: extends_def)

lemma extends_deref: "extends w w' \<Longrightarrow> a < length (heap w) \<Longrightarrow> deref w' a = deref w a"
  by (auto simp add: extends_def deref_def prefix_def nth_append)

lemma extends_length: "extends w w' \<Longrightarrow> length (heap w) \<le> length (heap w')"
  by (auto simp add: extends_def prefix_def)

lemma extends_alloc [simp]: "extends w (fst (alloc w df))"
  by (simp add: extends_def alloc_def)

lemma snd_alloc [simp]: "snd (alloc w df) = length (heap w)"
  by (simp add: alloc_def)

lemma extends_assign_in_place:
  "extends w w1 \<Longrightarrow> length (heap w) \<le> a \<Longrightarrow> extends w (assign_in_place w1 a df)"
  by (auto simp add: extends_def assign_in_place_def prefix_def list_update_append)

lemma extends_alloc_after: "extends w w1 \<Longrightarrow> extends w (fst (alloc w1 df))"
  by (rule extends_trans [OF _ extends_alloc])

lemma format_df_for_plot_obj_extends:
  "extends w (fst (format_df_for_plot_obj w df))
   \<and> length (heap w) \<le> snd (format_df_for_plot_obj w df)"
  by (auto simp add: format_df_for_plot_obj_def Let_def extends_alloc_after
      intro: order_trans [OF _ extends_length [OF extends_alloc]])

lemma trend_obj_extends: "extends w (fst (trend_obj L w data_df))"
proof -
  let ?wp = "format_df_for_plot_obj w data_df"
  have e: "extends w (fst ?wp)" and l: "length (heap w) \<le> snd ?wp"
    using format_df_for_plot_obj_extends [of w data_df] by simp_all
  have a: "extends w (assign_in_place (fst ?wp) (snd ?wp) df)" for df
    by (rule extends_assign_in_place [OF e l])
  show ?thesis
    by (auto simp add: trend_obj_def Let_def a extends_alloc_after split: sum.splits)
qed

lemma display_table_obj_extends: "extends w (fst (display_table_obj L show_table w data_df))"
  by (auto simp add: display_table_obj_def Let_def extends_alloc_after split: sum.splits)

lemma export_csv_obj_extends: "extends w (fst (export_csv_obj L download_btn w data_df))"
proof -
  have "extends w (assign_in_place (fst (alloc w f)) (snd (alloc w f)) df)" for f df
    by (rule extends_assign_in_place) simp_all
  then show ?thesis
    by (auto simp add: export_csv_obj_def Let_def)
qed

lemma filter_obj_extends: "extends w (fst (filter_obj w data_df mf sf))"
  by (auto simp add: filter_obj_def Let_def extends_alloc_after)

lemma render_obj_extends:
  "extends w (fst (render_obj L mode show_table download_btn w data_df))"
proof -
  obtain w1 r1 where t: "trend_obj L w data_df = (w1, r1)" by (cases "trend_obj L w data_df")
  have e1: "extends w w1" using trend_obj_extends [of w L data_df] t by simp
  obtain w2 r2 where d: "display_table_obj L show_table w1 data_df = (w2, r2)"
    by (cases "display_table_obj L show_table w1 data_df")
  have e2: "extends w w2"
    using display_table_obj_extends [of w1 L show_table data_df] d e1
    by (auto intro: extends_trans)
  obtain w3 r3 where x: "export_csv_obj L download_btn w2 data_df = (w3, r3)"
    by (cases "export_csv_obj L download_btn w2 data_df")
  have e3: "extends w w3"
    using export_csv_obj_extends [of w2 L download_btn data_df] x e2
    by (auto intro: extends_trans)
  show ?thesis
    using t d x e1 e2 e3 by (auto simp add: render_obj_def split: sum.splits)
qed

lemma live_init_obj_present:
  "live_buffer w = Some a \<Longrightarrow> live_init_obj L E w = (w, Inr ())"
  by (simp add: live_init_obj_def)

lemma live_branch_obj_no_refresh:
  assumes "live_buffer w = Some a"
  shows "extends w (fst (live_branch_obj L E False w))"
  using assms by (simp add: live_branch_obj_def live_init_obj_present Let_def)


lemma live_init_obj_valid:
  assumes "\<forall>a. live_buffer w = Some a \<longrightarrow> a < length (heap w)"
  shows "\<forall>a. live_buffer (fst (live_init_obj L E w)) = Some a
           \<longrightarrow> a < length (heap (fst (live_init_obj L E w)))"
  using assms by (auto simp add: live_init_obj_def alloc_def Let_def split: sum.splits)

lemma live_tick_obj_valid:
  assumes "\<forall>a. live_buffer w = Some a \<longrightarrow> a < length (heap w)"
  shows "\<forall>a. live_buffer (fst (live_tick_obj L E w)) = Some a
           \<longrightarrow> a < length (heap (fst (live_tick_obj L E w)))"
  using assms
  by (auto simp add: live_tick_obj_def alloc_def Let_def split: sum.splits option.splits)

lemma live_branch_obj_valid:
  assumes "\<forall>a. live_buffer w = Some a \<longrightarrow> a < length (heap w)"
  shows "\<forall>a. live_buffer (fst (live_branch_obj L E auto_refresh w)) = Some a
           \<longrightarrow> a < length (heap (fst (live_branch_obj L E auto_refresh w)))"
proof -
  obtain w1 r1 where i: "live_init_obj L E w = (w1, r1)" by (cases "live_init_obj L E w")
  have v1: "\<forall>a. live_buffer w1 = Some a \<longrightarrow> a < length (heap w1)"
    using live_init_obj_valid [OF assms, of L E] i by simp
  obtain w2 r2 where t: "live_tick_obj L E w1 = (w2, r2)" by (cases "live_tick_obj L E w1")
  have v2: "\<forall>a. live_buffer w2 = Some a \<longrightarrow> a < length (heap w2)"
    using live_tick_obj_valid [OF v1, of L E] t by simp
  show ?thesis
    using i t v1 v2
    by (auto simp add: live_branch_obj_def alloc_def Let_def split: sum.splits option.splits)
qed

lemma live_pass_extends:
  "extends (fst (live_branch_obj L E auto_refresh w))
     (fst (live_pass L E auto_refresh show_table download_btn mf sf w))"
proof -
  obtain w1 r where b: "live_branch_obj L E auto_refresh w = (w1, r)"
    by (cases "live_branch_obj L E auto_refresh w")
  show ?thesis
  proof (cases r)
    case (Inl e)
    then show ?thesis using b by (simp add: live_pass_def)
  next
    case (Inr data_df)
    let ?wd = "filter_obj w1 data_df mf sf"
    have "extends w1 (fst ?wd)" by (rule filter_obj_extends)
    moreover have "extends (fst ?wd)
        (fst (render_obj L ''Live (simulated)'' show_table download_btn (fst ?wd) (snd ?wd)))"
      by (rule render_obj_extends)
    ultimately show ?thesis
      using b Inr by (auto simp add: live_pass_def Let_def intro: extends_trans)
  qed
qed

text \<open>
  Claim C10. In a pass in live mode the session's buffer reference, its
  \<^verbatim>\<open>last_live_time\<close> and the table the reference points to are, at the end of the pass
  (filter, trend, statistics, raw table and download done, or cut short by an exception),
  what the first-fill and tick step left: the statements after that step create tables and
  change only tables they created. With auto-refresh off and a buffer already in the
  session, the buffer after the pass is the buffer before it.
\<close>

theorem rolling_buffer_unchanged_by_views:
  assumes "\<forall>a. live_buffer w = Some a \<longrightarrow> a < length (heap w)"
  shows "live_buffer (fst (live_pass L E auto_refresh show_table download_btn mf sf w))
           = live_buffer (fst (live_branch_obj L E auto_refresh w))
         \<and> last_live_time (fst (live_pass L E auto_refresh show_table download_btn mf sf w))
           = last_live_time (fst (live_branch_obj L E auto_refresh w))
         \<and> (\<forall>a. live_buffer (fst (live_branch_obj L E auto_refresh w)) = Some a \<longrightarrow>
               deref (fst (live_pass L E auto_refresh show_table download_btn mf sf w)) a
                 = deref (fst (live_branch_obj L E auto_refresh w)) a)
         \<and> (\<not> auto_refresh \<longrightarrow>
              (\<forall>a. live_buffer w = Some a \<longrightarrow>
                 live_buffer (fst (live_pass L E auto_refresh show_table download_btn mf sf w))
                   = Some a
                 \<and> last_live_time
                     (fst (live_pass L E auto_refresh show_table download_btn mf sf w))
                   = last_live_time w
                 \<and> deref (fst (live_pass L E auto_refresh show_table download_btn mf sf w)) a
                   = deref w a))"
proof -
  let ?w1 = "fst (live_branch_obj L E auto_refresh w)"
  let ?w' = "fst (live_pass L E auto_refresh show_table download_btn mf sf w)"
  have e: "extends ?w1 ?w'" by (rule live_pass_extends)
  have v: "\<forall>a. live_buffer ?w1 = Some a \<longrightarrow> a < length (heap ?w1)"
    by (rule live_branch_obj_valid [OF assms])
  have p1: "live_buffer ?w' = live_buffer ?w1" "last_live_time ?w' = last_live_time ?w1"
    using e by (simp_all add: extends_def)
  have p2: "\<forall>a. live_buffer ?w1 = Some a \<longrightarrow> deref ?w' a = deref ?w1 a"
    using e v by (auto intro: extends_deref)
  have p3: "\<not> auto_refresh \<longrightarrow>
              (\<forall>a. live_buffer w = Some a \<longrightarrow>
                 live_buffer ?w' = Some a \<and> last_live_time ?w' = last_live_time w
                 \<and> deref ?w' a = deref w a)"
  proof (intro impI allI)
    fix a assume nr: "\<not> auto_refresh" and a: "live_buffer w = Some a"
    have "extends w ?w1" using live_branch_obj_no_refresh [OF a, of L E] nr by simp
    then have ew: "extends w ?w'" using e by (rule extends_trans)
    have "a < length (heap w)" using assms a by simp
    then show "live_buffer ?w' = Some a \<and> last_live_time ?w' = last_live_time w
                 \<and> deref ?w' a = deref w a"
      using ew a by (simp add: extends_def extends_deref)
  qed
  show ?thesis using p1 p2 p3 by blast
qed

theorem rolling_buffer_unchanged_by_views_witness:
  "live_buffer sample_world = Some 0
   \<and> 0 < length (heap sample_world)
   \<and> live_buffer (fst (live_pass sample_lib sample_env False True True
        [''temperature'', ''humidity''] [] sample_world)) = Some 0
   \<and> last_live_time (fst (live_pass sample_lib sample_env False True True
        [''temperature'', ''humidity''] [] sample_world)) = Some 63899999999000000
   \<and> deref (fst (live_pass sample_lib sample_env False True True
        [''temperature'', ''humidity''] [] sample_world)) 0 = deref sample_world 0
   \<and> length (heap (fst (live_pass sample_lib sample_env False True True
        [''temperature'', ''humidity''] [] sample_world))) = 9"
proof -
  have lb: "live_buffer sample_world = Some 0" by (simp add: sample_world_def)
  have len: "0 < length (heap sample_world)" by (simp add: sample_world_def)
  have llt: "last_live_time sample_world = Some 63899999999000000"
    by (simp add: sample_world_def)
  have v: "\<forall>a. live_buffer sample_world = Some a \<longrightarrow> a < length (heap sample_world)"
    using lb len by simp
  have n: "length (heap (fst (live_pass sample_lib sample_env False True True
        [''temperature'', ''humidity''] [] sample_world))) = 9"
    by code_simp
  let ?w' = "fst (live_pass sample_lib sample_env False True True
        [''temperature'', ''humidity''] [] sample_world)"
  have q: "live_buffer ?w' = Some 0 \<and> last_live_time ?w' = last_live_time sample_world
             \<and> deref ?w' 0 = deref sample_world 0"
    using rolling_buffer_unchanged_by_views [OF v, where L = sample_lib
      and E = sample_env and auto_refresh = False and show_table = True
      and download_btn = True and mf = "[''temperature'', ''humidity'']" and sf = "[]"]
      lb
    by blast
  show ?thesis using q lb len llt n by simp
qed

end
